theory Spec2Isabelle
  imports Complex_Main
begin

section \<open>Data model\<close>

text \<open>
  The scenario of \<^verbatim>\<open>Kuka_updated/scenario.py\<close> drives a simulated arm through a
  pick-and-place sequence. Joint configurations are one-dimensional numpy arrays of
  floats; they are modelled as lists of real numbers, so Python's floating-point numbers
  are idealised as reals (no rounding, no NaN, no infinities).
\<close>

type_synonym vec = "real list"

text \<open>The Python exceptions that the modelled code can raise.\<close>

datatype error = ValueError | IndexError | TypeError | AttributeError | ZeroDivisionError

text \<open>
  The handles of the host simulator. Of the articulation the code reads the static
  \<^verbatim>\<open>num_dof\<close>; its joint positions change with the physics and are an input of
  every call that reads them.
\<close>

record articulation_handle =
  num_dof :: nat

record prim_handle =
  prim_path :: string

text \<open>\<^verbatim>\<open>ArticulationAction(joint_positions=..., joint_velocities=...)\<close>\<close>

record articulation_action =
  joint_positions :: vec
  joint_velocities :: vec

text \<open>What a call does to the host: the calls made on the handles, and what is printed.\<close>

datatype effect =
    Print string
  | SetJointPositions vec
  | ApplyAction articulation_action
  | SetWorldPose vec

text \<open>The fields of \<^verbatim>\<open>ExampleScenario\<close>; \<open>None\<close> is Python's \<^verbatim>\<open>None\<close>.\<close>

record scenario =
  object :: "prim_handle option"
  articulation :: "articulation_handle option"
  running_scenario :: bool
  time :: real
  phase :: int
  phase_time :: real
  phase_duration :: real
  home_position :: "vec option"
  pre_grasp_position :: "vec option"
  grasp_position :: "vec option"
  lift_position :: "vec option"
  place_position :: "vec option"
  cube_grasped :: bool
  initial_cube_position :: "vec option"

text \<open>\<^verbatim>\<open>ExampleScenario.__init__\<close>\<close>

definition init_scenario :: scenario where
  "init_scenario =
     \<lparr> object = None, articulation = None, running_scenario = False, time = 0,
       phase = 0, phase_time = 0, phase_duration = 2,
       home_position = None, pre_grasp_position = None, grasp_position = None,
       lift_position = None, place_position = None,
       cube_grasped = False, initial_cube_position = None \<rparr>"

section \<open>Array arithmetic\<close>

text \<open>
  A binary operation of numpy on two one-dimensional arrays: componentwise when the
  lengths agree, an array of length one is broadcast against the other, and any other
  pair of shapes raises \<^verbatim>\<open>ValueError\<close>.
\<close>

definition np_binop :: "(real \<Rightarrow> real \<Rightarrow> real) \<Rightarrow> vec \<Rightarrow> vec \<Rightarrow> error + vec" where
  "np_binop f xs ys =
     (if length xs = length ys then Inr (map2 f xs ys)
      else if length xs = 1 then Inr (map (f (hd xs)) ys)
      else if length ys = 1 then Inr (map (\<lambda>x. f x (hd ys)) xs)
      else Inl ValueError)"

definition np_add :: "vec \<Rightarrow> vec \<Rightarrow> error + vec" where
  "np_add = np_binop (+)"

definition np_sub :: "vec \<Rightarrow> vec \<Rightarrow> error + vec" where
  "np_sub = np_binop (-)"

text \<open>An array times, or divided by, a scalar.\<close>

definition np_scale :: "vec \<Rightarrow> real \<Rightarrow> vec" where
  "np_scale xs c = map (\<lambda>x. x * c) xs"

definition np_div_scalar :: "vec \<Rightarrow> real \<Rightarrow> vec" where
  "np_div_scalar xs c = map (\<lambda>x. x / c) xs"

text \<open>\<^verbatim>\<open>np.clip(a, lo, hi)\<close> is \<^verbatim>\<open>minimum(hi, maximum(a, lo))\<close> on every component.\<close>

definition np_clip :: "vec \<Rightarrow> real \<Rightarrow> real \<Rightarrow> vec" where
  "np_clip xs lo hi = map (\<lambda>x. min hi (max x lo)) xs"

text \<open>Sequencing of computations that may raise.\<close>

definition bind_result :: "error + 'a \<Rightarrow> ('a \<Rightarrow> error + 'b) \<Rightarrow> error + 'b" where
  "bind_result r f = (case r of Inl e \<Rightarrow> Inl e | Inr x \<Rightarrow> f x)"

text \<open>An attribute that holds \<^verbatim>\<open>None\<close> where an array is needed raises \<^verbatim>\<open>TypeError\<close>.\<close>

definition the_array :: "vec option \<Rightarrow> error + vec" where
  "the_array v = (case v of None \<Rightarrow> Inl TypeError | Some a \<Rightarrow> Inr a)"

section \<open>The scenario\<close>

text \<open>
  \<^verbatim>\<open>setup_scenario(articulation, object_prim)\<close>. The position that
  \<^verbatim>\<open>object_prim.get_world_pose()[0]\<close> reads from the simulator is the argument
  \<open>cube_position\<close>. The configurations are the first \<^verbatim>\<open>num_dof\<close> entries of
  six-element lists; the home configuration is \<^verbatim>\<open>np.zeros(num_dof)\<close>.
\<close>

definition setup_scenario ::
  "scenario \<Rightarrow> articulation_handle \<Rightarrow> prim_handle \<Rightarrow> vec \<Rightarrow> scenario \<times> effect list" where
  "setup_scenario s art object_prim cube_position =
     (let n = num_dof art;
          home = replicate n 0
      in (s\<lparr> articulation := Some art,
             object := Some object_prim,
             initial_cube_position := Some cube_position,
             running_scenario := True,
             phase := 0,
             phase_time := 0,
             cube_grasped := False,
             home_position := Some home,
             pre_grasp_position := Some (take n [0, -0.5, 0.5, 0, 0.5, 0]),
             grasp_position := Some (take n [0, -0.3, 0.3, 0, 0.8, 0]),
             lift_position := Some (take n [0, -0.5, 0.5, 0, 0.5, 0]),
             place_position := Some (take n [1, -0.3, 0.3, 0, 0.8, 0]) \<rparr>,
          [SetJointPositions home,
           Print ''Pick and Place Scenario Started'',
           Print ''Phase 0: Moving to pre-grasp position'']))"

definition teardown_scenario :: "scenario \<Rightarrow> scenario" where
  "teardown_scenario s =
     s\<lparr> time := 0, phase_time := 0, phase := 0, object := None, articulation := None,
        running_scenario := False, cube_grasped := False \<rparr>"

subsection \<open>Interpolation\<close>

text \<open>The local \<^verbatim>\<open>smooth_t = (1 - np.cos(t * np.pi)) / 2\<close> of \<^verbatim>\<open>_interpolate_positions\<close>.\<close>

definition smooth_t :: "real \<Rightarrow> real" where
  "smooth_t t = (1 - cos (t * pi)) / 2"

text \<open>\<^verbatim>\<open>_interpolate_positions\<close>: \<^verbatim>\<open>start + (end - start) * smooth_t\<close> on arrays.\<close>

definition interpolate_positions :: "vec \<Rightarrow> vec \<Rightarrow> real \<Rightarrow> error + vec" where
  "interpolate_positions start end t =
     bind_result (np_sub end start)
       (\<lambda>d. np_add start (np_scale d (smooth_t t)))"

text \<open>
  The interpolation factor of \<^verbatim>\<open>_execute_phase\<close>,
  \<^verbatim>\<open>t = min(self._phase_time / self._phase_duration, 1.0)\<close>; Python's float division
  raises on a zero divisor.
\<close>

definition interpolation_factor :: "scenario \<Rightarrow> error + real" where
  "interpolation_factor s =
     (if phase_duration s = 0 then Inl ZeroDivisionError
      else Inr (min (phase_time s / phase_duration s) 1))"

text \<open>The target of the current phase: the \<^verbatim>\<open>if\<close>/\<^verbatim>\<open>elif\<close> chain of \<^verbatim>\<open>_execute_phase\<close>.\<close>

definition interpolate_between :: "vec option \<Rightarrow> vec option \<Rightarrow> real \<Rightarrow> error + vec" where
  "interpolate_between start end t =
     bind_result (the_array start)
       (\<lambda>a. bind_result (the_array end) (\<lambda>b. interpolate_positions a b t))"

definition phase_target :: "scenario \<Rightarrow> real \<Rightarrow> error + vec" where
  "phase_target s t =
     (if phase s = 0 then interpolate_between (home_position s) (pre_grasp_position s) t
      else if phase s = 1 then interpolate_between (pre_grasp_position s) (grasp_position s) t
      else if phase s = 2 then the_array (grasp_position s)
      else if phase s = 3 then interpolate_between (grasp_position s) (lift_position s) t
      else if phase s = 4 then interpolate_between (lift_position s) (place_position s) t
      else if phase s = 5 then the_array (place_position s)
      else if phase s = 6 then interpolate_between (place_position s) (home_position s) t
      else the_array (home_position s))"

text \<open>
  \<^verbatim>\<open>_execute_phase(step)\<close>. The argument \<open>joints\<close> is what
  \<^verbatim>\<open>self._articulation.get_joint_positions()\<close> reads during the call. The result is
  the call made on the articulation, or the exception raised before it.
\<close>

definition max_velocity :: real where
  "max_velocity = 2"

definition execute_phase :: "scenario \<Rightarrow> real \<Rightarrow> vec \<Rightarrow> error + effect list" where
  "execute_phase s step joints =
     bind_result (interpolation_factor s) (\<lambda>t.
       case articulation s of
         None \<Rightarrow> Inl AttributeError
       | Some art \<Rightarrow>
           bind_result (phase_target s t) (\<lambda>target.
           bind_result (np_sub target joints) (\<lambda>d.
             let velocity = np_div_scalar d (max step 0.001);
                 velocity = np_clip velocity (- max_velocity) max_velocity
             in Inr [ApplyAction \<lparr> joint_positions = target, joint_velocities = velocity \<rparr>])))"

text \<open>\<^verbatim>\<open>_update_cube_position\<close>: the cube follows an approximate end-effector position.\<close>

definition update_cube_position :: "scenario \<Rightarrow> vec \<Rightarrow> error + effect list" where
  "update_cube_position s joints =
     (case articulation s of
        None \<Rightarrow> Inl AttributeError
      | Some art \<Rightarrow>
          if length joints < 2 then Inl IndexError
          else
            let reach = 1.5;
                x = 0 + reach * sin (joints ! 0) * cos (joints ! 1);
                y = 0 + reach * cos (joints ! 0) * cos (joints ! 1);
                z = 0 + reach * sin (joints ! 1) + 0.5
            in (case object s of
                  None \<Rightarrow> Inl AttributeError
                | Some obj \<Rightarrow> Inr [SetWorldPose [x, y, z]]))"

subsection \<open>The phase clock\<close>

text \<open>
  The body of \<^verbatim>\<open>if self._phase_time >= self._phase_duration:\<close> in
  \<^verbatim>\<open>update_scenario\<close>. The third component tells whether the method returns there.
\<close>

definition advance_phase :: "scenario \<Rightarrow> scenario \<times> effect list \<times> bool" where
  "advance_phase s0 =
     (let s = s0\<lparr> phase := phase s0 + 1, phase_time := 0 \<rparr>
      in if phase s = 1 then (s, [Print ''Phase 1: Moving to grasp position''], False)
         else if phase s = 2 then
           (s\<lparr> cube_grasped := True \<rparr>, [Print ''Phase 2: Grasping cube''], False)
         else if phase s = 3 then (s, [Print ''Phase 3: Lifting cube''], False)
         else if phase s = 4 then (s, [Print ''Phase 4: Moving to place position''], False)
         else if phase s = 5 then
           (s\<lparr> cube_grasped := False \<rparr>, [Print ''Phase 5: Placing cube''], False)
         else if phase s = 6 then (s, [Print ''Phase 6: Returning home''], False)
         else if phase s \<ge> 7 then
           (s\<lparr> running_scenario := False \<rparr>, [Print ''Pick and Place Complete!''], True)
         else (s, [], False))"

text \<open>
  The end of \<^verbatim>\<open>update_scenario\<close>: execute the phase, then move the cube if it is
  grasped. An exception ends the call; what was done before it stays done.
\<close>

definition execute_and_track :: "scenario \<Rightarrow> real \<Rightarrow> vec \<Rightarrow> effect list \<times> error option" where
  "execute_and_track s step joints =
     (case execute_phase s step joints of
        Inl e \<Rightarrow> ([], Some e)
      | Inr out \<Rightarrow>
          if cube_grasped s then
            (case update_cube_position s joints of
               Inl e \<Rightarrow> (out, Some e)
             | Inr out' \<Rightarrow> (out @ out', None))
          else (out, None))"

text \<open>
  \<^verbatim>\<open>update_scenario(step)\<close>: the new state, the calls made on the host in order, and
  the exception that ended the call, if any.
\<close>

definition update_scenario ::
  "scenario \<Rightarrow> real \<Rightarrow> vec \<Rightarrow> scenario \<times> effect list \<times> error option" where
  "update_scenario s step joints =
     (if \<not> running_scenario s then (s, [], None)
      else
        let s1 = s\<lparr> time := time s + step, phase_time := phase_time s + step \<rparr>
        in if phase_time s1 \<ge> phase_duration s1 then
             (case advance_phase s1 of
                (s2, out, returned) \<Rightarrow>
                  if returned then (s2, out, None)
                  else (case execute_and_track s2 step joints of
                          (out', err) \<Rightarrow> (s2, out @ out', err)))
           else (case execute_and_track s1 step joints of
                   (out', err) \<Rightarrow> (s1, out', err)))"

text \<open>
  A sequence of physics callbacks: each supplies its step and the joint positions the
  simulator holds at that moment. The host goes on calling after an exception.
\<close>

fun run_updates :: "scenario \<Rightarrow> (real \<times> vec) list \<Rightarrow> scenario \<times> effect list" where
  "run_updates s [] = (s, [])"
| "run_updates s ((step, joints) # rest) =
     (case update_scenario s step joints of
        (s', out, err) \<Rightarrow>
          (case run_updates s' rest of (s'', out') \<Rightarrow> (s'', out @ out')))"

section \<open>The user interface\<close>

text \<open>The fields that \<^verbatim>\<open>UIBuilder._on_init\<close> sets.\<close>

record world_handle =
  physics_dt :: real
  rendering_dt :: real

record ui_builder =
  ui_articulation :: "articulation_handle option"
  cuboid :: "prim_handle option"
  ui_scenario :: scenario
  world :: "world_handle option"

definition on_init :: ui_builder where
  "on_init = \<lparr> ui_articulation = None, cuboid = None, ui_scenario = init_scenario,
               world = None \<rparr>"

text \<open>\<^verbatim>\<open>UIBuilder._reset_scenario\<close>; \<open>cube_position\<close> as in \<open>setup_scenario\<close>.\<close>

definition reset_scenario :: "ui_builder \<Rightarrow> vec \<Rightarrow> ui_builder \<times> effect list" where
  "reset_scenario u cube_position =
     (case (ui_articulation u, cuboid u) of
        (Some art, Some cub) \<Rightarrow>
          (case setup_scenario (teardown_scenario (ui_scenario u)) art cub cube_position of
             (sc, out) \<Rightarrow> (u\<lparr> ui_scenario := sc \<rparr>, out))
      | _ \<Rightarrow> (u, [Print ''Warning: Cannot reset scenario - objects not loaded'']))"

section \<open>Reference formulas\<close>

text \<open>
  The formulas of the specification, written as it words them, for comparison with the
  definitions above.
\<close>

text \<open>Normalised progress \<open>clamp(elapsed/duration, 0, 1)\<close>.\<close>

definition spec_progress :: "real \<Rightarrow> real \<Rightarrow> real" where
  "spec_progress elapsed duration = max 0 (min (elapsed / duration) 1)"

text \<open>
  The velocity \<open>(target - current)/divisor\<close>, clamped componentwise to magnitude 2; the
  difference of the two arrays is numpy's.
\<close>

definition clamped_velocity :: "vec \<Rightarrow> vec \<Rightarrow> real \<Rightarrow> error + vec" where
  "clamped_velocity target current divisor =
     bind_result (np_sub target current)
       (\<lambda>d. Inr (map (\<lambda>x. min 2 (max (x / divisor) (- 2))) d))"

text \<open>
  The start and end configuration of each phase, as the comments of
  \<^verbatim>\<open>_execute_phase\<close> name them; a phase that stays in place starts and ends there.
\<close>

definition phase_endpoints :: "scenario \<Rightarrow> vec option \<times> vec option" where
  "phase_endpoints s =
     (if phase s = 0 then (home_position s, pre_grasp_position s)
      else if phase s = 1 then (pre_grasp_position s, grasp_position s)
      else if phase s = 2 then (grasp_position s, grasp_position s)
      else if phase s = 3 then (grasp_position s, lift_position s)
      else if phase s = 4 then (lift_position s, place_position s)
      else if phase s = 5 then (place_position s, place_position s)
      else if phase s = 6 then (place_position s, home_position s)
      else (home_position s, home_position s))"

text \<open>What holds of the phase clock in every state that updates reach after a setup.\<close>

definition phase_clock_inv :: "scenario \<Rightarrow> bool" where
  "phase_clock_inv s \<longleftrightarrow>
     0 \<le> phase s \<and> phase s \<le> 7 \<and> (running_scenario s \<longleftrightarrow> phase s \<noteq> 7) \<and>
     (cube_grasped s \<longleftrightarrow> phase s \<in> {2, 3, 4})"

section \<open>Example runs\<close>

text \<open>
  The six-axis arm and the cuboid that \<^verbatim>\<open>UIBuilder._on_load_world\<close> creates, and
  states of a run with them.
\<close>

definition kr210 :: articulation_handle where
  "kr210 = \<lparr> num_dof = 6 \<rparr>"

definition cuboid_prim :: prim_handle where
  "cuboid_prim = \<lparr> prim_path = ''/Scenario/cuboid'' \<rparr>"

definition started :: scenario where
  "started = fst (setup_scenario init_scenario kr210 cuboid_prim [0.6, 0.3, 0.3])"

definition at_grasp :: vec where
  "at_grasp = [0, - 0.3, 0.3, 0, 0.8, 0]"

definition near_grasp :: vec where
  "near_grasp = [0, 0, 0.301, 0, 0.8, 0]"

definition approaching :: scenario where
  "approaching = fst (run_updates started [(2, at_grasp)])"

definition grasping :: scenario where
  "grasping = fst (run_updates started [(2, replicate 6 0), (2, at_grasp)])"

definition moving :: scenario where
  "moving = fst (run_updates started [(2, at_grasp), (2, at_grasp), (2, at_grasp), (2, at_grasp)])"

definition completed :: scenario where
  "completed = fst (run_updates started
     [(2, at_grasp), (2, at_grasp), (2, at_grasp), (2, at_grasp), (2, at_grasp),
      (2, at_grasp), (2, at_grasp)])"

text \<open>One callback at the world's physics step of 1/60 s, and one with a step of 0.5 ms.\<close>

definition tracking :: scenario where
  "tracking = fst (update_scenario grasping (1 / 60) near_grasp)"

definition slow_step :: scenario where
  "slow_step = fst (update_scenario grasping (1 / 2000) near_grasp)"


text \<open>The user interface once the world is loaded.\<close>

definition loaded :: ui_builder where
  "loaded = on_init\<lparr> ui_articulation := Some kr210, cuboid := Some cuboid_prim \<rparr>"

section \<open>Interpolation\<close>

lemma np_binop_same_length:
  "length xs = length ys \<Longrightarrow> np_binop f xs ys = Inr (map2 f xs ys)"
  by (simp add: np_binop_def)

lemma smooth_t_0: "smooth_t 0 = 0"
  by (simp add: smooth_t_def)

lemma smooth_t_1: "smooth_t 1 = 1"
  by (simp add: smooth_t_def)

lemma map2_fst: "length xs = length ys \<Longrightarrow> map2 (\<lambda>a b. a) xs ys = xs"
  by (induction xs ys rule: list_induct2) simp_all

lemma map2_snd: "length xs = length ys \<Longrightarrow> map2 (\<lambda>a b. b) xs ys = ys"
  by (induction xs ys rule: list_induct2) simp_all

text \<open>On arrays of one length the interpolator works component by component.\<close>

lemma interpolate_positions_same_length:
  assumes "length start = length end"
  shows "interpolate_positions start end t =
           Inr (map2 (\<lambda>a b. a + (b - a) * smooth_t t) start end)"
proof -
  have sub: "np_sub end start = Inr (map2 (-) end start)"
    using assms by (simp add: np_sub_def np_binop_same_length)
  have len: "length start = length (np_scale (map2 (-) end start) (smooth_t t))"
    using assms by (simp add: np_scale_def)
  have "map2 (+) start (np_scale (map2 (-) end start) (smooth_t t)) =
        map2 (\<lambda>a b. a + (b - a) * smooth_t t) start end"
    using assms by (induction start "end" rule: list_induct2) (simp_all add: np_scale_def)
  then show ?thesis
    using sub len
    by (simp add: interpolate_positions_def bind_result_def np_add_def np_binop_same_length
        del: length_map length_zip)
qed

lemma interpolate_between_0:
  "length a = length b \<Longrightarrow> interpolate_between (Some a) (Some b) 0 = Inr a"
  by (simp add: interpolate_between_def the_array_def bind_result_def
      interpolate_positions_same_length smooth_t_0 map2_fst)

lemma interpolate_between_1:
  "length a = length b \<Longrightarrow> interpolate_between (Some a) (Some b) 1 = Inr b"
  by (simp add: interpolate_between_def the_array_def bind_result_def
      interpolate_positions_same_length smooth_t_1 map2_snd)

text \<open>
  C1. For joint configurations \<open>start\<close> and \<open>end\<close> of one length and every \<open>t\<close>, the
  interpolator returns the array whose every component is
  \<open>start + (end - start) * smooth_t\<close> with \<open>smooth_t = (1 - cos (t * pi)) / 2\<close>: the
  cosine-eased linear blend of the two endpoints.
\<close>

theorem interpolate_positions_blend:
  "length start = length end \<Longrightarrow>
     interpolate_positions start end t =
       Inr (map2 (\<lambda>a b. a + (b - a) * ((1 - cos (t * pi)) / 2)) start end)"
  using interpolate_positions_same_length [of start "end" t] by (simp add: smooth_t_def)

theorem interpolate_positions_blend_witness:
  "length [0, 1 :: real] = length [1, 3 :: real] \<and>
   interpolate_positions [0, 1] [1, 3] (1 / 2) = Inr [1 / 2, 2]"
  using interpolate_positions_blend [of "[0, 1]" "[1, 3]" "1 / 2"] by simp

text \<open>
  C2. At \<open>t = 0\<close> the interpolated target is the start configuration and at \<open>t = 1\<close> it is
  the end configuration: for the interpolator on any two configurations of one length,
  and for the target of every phase whose two endpoints are set and have one length.
\<close>

theorem interpolation_endpoints:
  "(length start = length end \<longrightarrow>
      interpolate_positions start end 0 = Inr start \<and>
      interpolate_positions start end 1 = Inr end)
   \<and> (phase_endpoints s = (Some a, Some b) \<and> length a = length b \<longrightarrow>
      phase_target s 0 = Inr a \<and> phase_target s 1 = Inr b)"
proof (intro conjI impI)
  assume "length start = length end"
  then show "interpolate_positions start end 0 = Inr start"
    by (simp add: interpolate_positions_same_length smooth_t_0 map2_fst)
next
  assume "length start = length end"
  then show "interpolate_positions start end 1 = Inr end"
    by (simp add: interpolate_positions_same_length smooth_t_1 map2_snd)
next
  assume "phase_endpoints s = (Some a, Some b) \<and> length a = length b"
  then show "phase_target s 0 = Inr a"
    by (auto simp: phase_endpoints_def phase_target_def interpolate_between_0 the_array_def
        split: if_splits)
next
  assume "phase_endpoints s = (Some a, Some b) \<and> length a = length b"
  then show "phase_target s 1 = Inr b"
    by (auto simp: phase_endpoints_def phase_target_def interpolate_between_1 the_array_def
        split: if_splits)
qed

lemma started_eq:
  "started = \<lparr> object = Some cuboid_prim, articulation = Some kr210, running_scenario = True,
       time = 0, phase = 0, phase_time = 0, phase_duration = 2,
       home_position = Some [0, 0, 0, 0, 0, 0],
       pre_grasp_position = Some [0, -0.5, 0.5, 0, 0.5, 0],
       grasp_position = Some [0, -0.3, 0.3, 0, 0.8, 0],
       lift_position = Some [0, -0.5, 0.5, 0, 0.5, 0],
       place_position = Some [1, -0.3, 0.3, 0, 0.8, 0],
       cube_grasped = False, initial_cube_position = Some [0.6, 0.3, 0.3] \<rparr>"
  by (simp add: started_def setup_scenario_def init_scenario_def kr210_def Let_def
      numeral_eq_Suc)

theorem interpolation_endpoints_witness:
  "length [0, 0, 0, 0, 0, 0 :: real] = length [0, - 0.5, 0.5, 0, 0.5, 0 :: real]
   \<and> interpolate_positions [0, 0, 0, 0, 0, 0] [0, - 0.5, 0.5, 0, 0.5, 0] 0 = Inr [0, 0, 0, 0, 0, 0]
   \<and> interpolate_positions [0, 0, 0, 0, 0, 0] [0, - 0.5, 0.5, 0, 0.5, 0] 1
       = Inr [0, - 0.5, 0.5, 0, 0.5, 0]
   \<and> phase_endpoints started = (Some [0, 0, 0, 0, 0, 0], Some [0, - 0.5, 0.5, 0, 0.5, 0])
   \<and> phase_target started 0 = Inr [0, 0, 0, 0, 0, 0]
   \<and> phase_target started 1 = Inr [0, - 0.5, 0.5, 0, 0.5, 0]"
proof -
  have ends: "phase_endpoints started = (Some [0, 0, 0, 0, 0, 0], Some [0, - 0.5, 0.5, 0, 0.5, 0])"
    by (simp add: phase_endpoints_def started_eq)
  from interpolation_endpoints [of "[0, 0, 0, 0, 0, 0]" "[0, - 0.5, 0.5, 0, 0.5, 0]" started
      "[0, 0, 0, 0, 0, 0]" "[0, - 0.5, 0.5, 0, 0.5, 0]"] ends
  show ?thesis by simp
qed

text \<open>
  After a setup for an arm of at most six degrees of freedom the endpoints of every phase
  are set and have one length. (With more, the home configuration is longer than the
  other four.)
\<close>

lemma setup_scenario_lengths:
  assumes "num_dof art \<le> 6" and "s = fst (setup_scenario s0 art obj pos)"
  shows "\<exists>a b. phase_endpoints (s\<lparr>phase := p\<rparr>) = (Some a, Some b) \<and> length a = length b"
  using assms by (simp add: setup_scenario_def phase_endpoints_def Let_def)

text \<open>
  C3. The easing function is non-decreasing on the interval from 0 to 1 and symmetric
  about 1/2: \<open>smooth_t t + smooth_t (1 - t) = 1\<close>.
\<close>

theorem smooth_t_monotone_symmetric:
  "(0 \<le> a \<and> a \<le> b \<and> b \<le> 1 \<longrightarrow> smooth_t a \<le> smooth_t b)
   \<and> smooth_t t + smooth_t (1 - t) = 1"
proof
  show "0 \<le> a \<and> a \<le> b \<and> b \<le> 1 \<longrightarrow> smooth_t a \<le> smooth_t b"
  proof
    assume h: "0 \<le> a \<and> a \<le> b \<and> b \<le> 1"
    have "0 \<le> a * pi" using h by simp
    moreover have "a * pi \<le> b * pi" using h by (simp add: mult_right_mono)
    moreover have "b * pi \<le> pi" using h by (simp add: mult_left_le_one_le)
    ultimately have "cos (b * pi) \<le> cos (a * pi)" by (rule cos_monotone_0_pi_le)
    then show "smooth_t a \<le> smooth_t b" by (simp add: smooth_t_def)
  qed
next
  have "cos ((1 - t) * pi) = cos (pi - t * pi)" by (simp add: algebra_simps)
  also have "\<dots> = - cos (t * pi)" by (rule cos_pi_minus)
  finally have "cos ((1 - t) * pi) = - cos (t * pi)" .
  then show "smooth_t t + smooth_t (1 - t) = 1"
    by (simp add: smooth_t_def add_divide_distrib [symmetric])
qed

theorem smooth_t_monotone_symmetric_witness:
  "(0::real) \<le> 0 \<and> (0::real) \<le> 1 \<and> (1::real) \<le> 1 \<and> smooth_t 0 \<le> smooth_t 1
   \<and> smooth_t (1 / 4) + smooth_t (1 - 1 / 4) = 1"
  using smooth_t_monotone_symmetric [of 0 1 "1 / 4"] by simp

section \<open>The state and the effects of an update\<close>

text \<open>The state after an update does not depend on what the phase execution does.\<close>

lemma update_scenario_state:
  "fst (update_scenario s step joints) =
     (if \<not> running_scenario s then s
      else if phase_time s + step \<ge> phase_duration s
           then fst (advance_phase (s\<lparr> time := time s + step, phase_time := phase_time s + step \<rparr>))
           else s\<lparr> time := time s + step, phase_time := phase_time s + step \<rparr>)"
  by (simp add: update_scenario_def Let_def split: prod.splits)

lemma run_updates_state_Nil: "fst (run_updates s []) = s"
  by simp

lemma run_updates_state_Cons:
  "fst (run_updates s ((step, joints) # rest)) =
     fst (run_updates (fst (update_scenario s step joints)) rest)"
  by (simp split: prod.splits)

lemma update_scenario_effects:
  "fst (snd (update_scenario s step joints)) =
     (if \<not> running_scenario s then []
      else if phase_time s + step \<ge> phase_duration s
           then (let r = advance_phase (s\<lparr> time := time s + step, phase_time := phase_time s + step \<rparr>)
                 in if snd (snd r) then fst (snd r)
                    else fst (snd r) @ fst (execute_and_track (fst r) step joints))
           else fst (execute_and_track (s\<lparr> time := time s + step, phase_time := phase_time s + step \<rparr>) step joints))"
  by (simp add: update_scenario_def Let_def split: prod.splits)

lemma update_scenario_phase:
  "phase (fst (update_scenario s step joints)) =
     (if running_scenario s \<and> phase_time s + step \<ge> phase_duration s
      then phase s + 1 else phase s)"
  by (simp add: update_scenario_state advance_phase_def Let_def)

lemma update_scenario_phase_time:
  "phase_time (fst (update_scenario s step joints)) =
     (if running_scenario s
      then (if phase_time s + step \<ge> phase_duration s then 0 else phase_time s + step)
      else phase_time s)"
  by (simp add: update_scenario_state advance_phase_def Let_def)



lemma advance_phase_prints:
  "e \<in> set (fst (snd (advance_phase s))) \<Longrightarrow> \<exists>text. e = Print text"
  by (auto simp: advance_phase_def Let_def split: if_splits)

lemma execute_phase_actions:
  "execute_phase s step joints = Inr out \<Longrightarrow> \<exists>a. out = [ApplyAction a]"
  by (auto simp: execute_phase_def bind_result_def Let_def split: sum.splits option.splits)

lemma update_cube_position_poses:
  "update_cube_position s joints = Inr out \<Longrightarrow> \<exists>p. out = [SetWorldPose p]"
  by (auto simp: update_cube_position_def Let_def split: option.splits if_splits)

lemma execute_and_track_pose:
  "SetWorldPose p \<in> set (fst (execute_and_track s step joints)) \<Longrightarrow> cube_grasped s"
  by (auto simp: execute_and_track_def split: sum.splits if_splits
      dest!: execute_phase_actions)

lemma execute_and_track_action:
  "ApplyAction a \<in> set (fst (execute_and_track s step joints)) \<Longrightarrow>
     execute_phase s step joints = Inr [ApplyAction a]"
  by (auto simp: execute_and_track_def split: sum.splits if_splits
      dest!: execute_phase_actions update_cube_position_poses)

lemma update_scenario_pose:
  assumes "SetWorldPose p \<in> set (fst (snd (update_scenario s step joints)))"
  shows "cube_grasped (fst (update_scenario s step joints))"
proof -
  let ?s1 = "s\<lparr> time := time s + step, phase_time := phase_time s + step \<rparr>"
  from assms have run: "running_scenario s"
    by (auto simp: update_scenario_effects split: if_splits)
  show ?thesis
  proof (cases "phase_time s + step \<ge> phase_duration s")
    case True
    have noprint: "SetWorldPose p \<notin> set (fst (snd (advance_phase ?s1)))"
      using advance_phase_prints [of "SetWorldPose p" ?s1] by auto
    from assms run True noprint
    have "SetWorldPose p \<in> set (fst (execute_and_track (fst (advance_phase ?s1)) step joints))"
      by (auto simp: update_scenario_effects Let_def split: if_splits)
    then have "cube_grasped (fst (advance_phase ?s1))"
      by (rule execute_and_track_pose)
    then show ?thesis using run True by (simp add: update_scenario_state)
  next
    case False
    with assms run
    have "SetWorldPose p \<in> set (fst (execute_and_track ?s1 step joints))"
      by (auto simp: update_scenario_effects)
    then have "cube_grasped ?s1" by (rule execute_and_track_pose)
    then show ?thesis using run False by (simp add: update_scenario_state)
  qed
qed

lemma update_scenario_action:
  assumes "ApplyAction a \<in> set (fst (snd (update_scenario s step joints)))"
  shows "execute_phase (fst (update_scenario s step joints)) step joints = Inr [ApplyAction a]"
proof -
  let ?s1 = "s\<lparr> time := time s + step, phase_time := phase_time s + step \<rparr>"
  from assms have run: "running_scenario s"
    by (auto simp: update_scenario_effects split: if_splits)
  show ?thesis
  proof (cases "phase_time s + step \<ge> phase_duration s")
    case True
    have noprint: "ApplyAction a \<notin> set (fst (snd (advance_phase ?s1)))"
      using advance_phase_prints [of "ApplyAction a" ?s1] by auto
    from assms run True noprint
    have "ApplyAction a \<in> set (fst (execute_and_track (fst (advance_phase ?s1)) step joints))"
      by (auto simp: update_scenario_effects Let_def split: if_splits)
    then have "execute_phase (fst (advance_phase ?s1)) step joints = Inr [ApplyAction a]"
      by (rule execute_and_track_action)
    then show ?thesis using run True by (simp add: update_scenario_state)
  next
    case False
    with assms run
    have "ApplyAction a \<in> set (fst (execute_and_track ?s1 step joints))"
      by (auto simp: update_scenario_effects)
    then have "execute_phase ?s1 step joints = Inr [ApplyAction a]"
      by (rule execute_and_track_action)
    then show ?thesis using run False by (simp add: update_scenario_state)
  qed
qed

text \<open>The pose that a call sets is the kinematic approximation at the joints it read.\<close>

lemma update_cube_position_result:
  "update_cube_position s joints = Inr out \<Longrightarrow>
     2 \<le> length joints \<and>
     out = [SetWorldPose [1.5 * sin (joints ! 0) * cos (joints ! 1),
                          1.5 * cos (joints ! 0) * cos (joints ! 1),
                          1.5 * sin (joints ! 1) + 0.5]]"
  by (auto simp: update_cube_position_def Let_def split: option.splits if_splits)

lemma execute_and_track_pose_value:
  "SetWorldPose p \<in> set (fst (execute_and_track s step joints)) \<Longrightarrow>
     2 \<le> length joints \<and>
     p = [1.5 * sin (joints ! 0) * cos (joints ! 1),
          1.5 * cos (joints ! 0) * cos (joints ! 1),
          1.5 * sin (joints ! 1) + 0.5]"
  by (auto simp: execute_and_track_def split: sum.splits if_splits
      dest!: execute_phase_actions update_cube_position_result)

lemma execute_and_track_tracks:
  "cube_grasped s \<Longrightarrow> snd (execute_and_track s step joints) = None \<Longrightarrow>
     SetWorldPose [1.5 * sin (joints ! 0) * cos (joints ! 1),
                   1.5 * cos (joints ! 0) * cos (joints ! 1),
                   1.5 * sin (joints ! 1) + 0.5]
       \<in> set (fst (execute_and_track s step joints))"
  by (auto simp: execute_and_track_def split: sum.splits
      dest!: update_cube_position_result)

lemma update_scenario_error:
  "snd (snd (update_scenario s step joints)) =
     (if \<not> running_scenario s then None
      else if phase_time s + step \<ge> phase_duration s
           then (let r = advance_phase (s\<lparr> time := time s + step, phase_time := phase_time s + step \<rparr>)
                 in if snd (snd r) then None
                    else snd (execute_and_track (fst r) step joints))
           else snd (execute_and_track (s\<lparr> time := time s + step, phase_time := phase_time s + step \<rparr>) step joints))"
  by (simp add: update_scenario_def Let_def split: prod.splits)

lemma advance_phase_returned:
  "snd (snd (advance_phase s)) \<Longrightarrow> \<not> running_scenario (fst (advance_phase s))"
  by (auto simp: advance_phase_def Let_def split: if_splits)

lemma update_scenario_pose_value:
  assumes "SetWorldPose p \<in> set (fst (snd (update_scenario s step joints)))"
  shows "2 \<le> length joints \<and>
     p = [1.5 * sin (joints ! 0) * cos (joints ! 1),
          1.5 * cos (joints ! 0) * cos (joints ! 1),
          1.5 * sin (joints ! 1) + 0.5]"
proof -
  let ?s1 = "s\<lparr> time := time s + step, phase_time := phase_time s + step \<rparr>"
  from assms have run: "running_scenario s"
    by (auto simp: update_scenario_effects split: if_splits)
  show ?thesis
  proof (cases "phase_time s + step \<ge> phase_duration s")
    case True
    have noprint: "SetWorldPose p \<notin> set (fst (snd (advance_phase ?s1)))"
      using advance_phase_prints [of "SetWorldPose p" ?s1] by auto
    from assms run True noprint
    have "SetWorldPose p \<in> set (fst (execute_and_track (fst (advance_phase ?s1)) step joints))"
      by (auto simp: update_scenario_effects Let_def split: if_splits)
    then show ?thesis by (rule execute_and_track_pose_value)
  next
    case False
    with assms run
    have "SetWorldPose p \<in> set (fst (execute_and_track ?s1 step joints))"
      by (auto simp: update_scenario_effects)
    then show ?thesis by (rule execute_and_track_pose_value)
  qed
qed

lemma update_scenario_tracks:
  assumes "running_scenario (fst (update_scenario s step joints))"
    and "cube_grasped (fst (update_scenario s step joints))"
    and "snd (snd (update_scenario s step joints)) = None"
  shows "SetWorldPose [1.5 * sin (joints ! 0) * cos (joints ! 1),
                   1.5 * cos (joints ! 0) * cos (joints ! 1),
                   1.5 * sin (joints ! 1) + 0.5]
       \<in> set (fst (snd (update_scenario s step joints)))"
proof -
  let ?s1 = "s\<lparr> time := time s + step, phase_time := phase_time s + step \<rparr>"
  let ?pose = "SetWorldPose [1.5 * sin (joints ! 0) * cos (joints ! 1),
                   1.5 * cos (joints ! 0) * cos (joints ! 1),
                   1.5 * sin (joints ! 1) + 0.5]"
  from assms(1) have run: "running_scenario s"
    by (auto simp: update_scenario_state split: if_splits)
  show ?thesis
  proof (cases "phase_time s + step \<ge> phase_duration s")
    case True
    with run have st: "fst (update_scenario s step joints) = fst (advance_phase ?s1)"
      by (simp add: update_scenario_state)
    with assms(1) have cont: "\<not> snd (snd (advance_phase ?s1))"
      using advance_phase_returned [of ?s1] by auto
    from assms(3) run True cont
    have err: "snd (execute_and_track (fst (advance_phase ?s1)) step joints) = None"
      by (simp add: update_scenario_error Let_def)
    from assms(2) st have cg: "cube_grasped (fst (advance_phase ?s1))"
      by simp
    have "?pose \<in> set (fst (execute_and_track (fst (advance_phase ?s1)) step joints))"
      by (rule execute_and_track_tracks [OF cg err])
    then show ?thesis using run True cont
      by (simp add: update_scenario_effects Let_def)
  next
    case False
    with run have st: "fst (update_scenario s step joints) = ?s1"
      by (simp add: update_scenario_state)
    from assms(3) run False
    have err: "snd (execute_and_track ?s1 step joints) = None"
      by (simp add: update_scenario_error)
    from assms(2) st have cg: "cube_grasped ?s1"
      by simp
    have "?pose \<in> set (fst (execute_and_track ?s1 step joints))"
      by (rule execute_and_track_tracks [OF cg err])
    then show ?thesis using run False
      by (simp add: update_scenario_effects)
  qed
qed

lemma update_scenario_phase_duration:
  "phase_duration (fst (update_scenario s step joints)) = phase_duration s"
  by (simp add: update_scenario_state advance_phase_def Let_def)

lemma run_updates_phase_duration:
  "phase_duration (fst (run_updates s inputs)) = phase_duration s"
proof (induction inputs arbitrary: s)
  case Nil
  then show ?case by simp
next
  case (Cons i inputs)
  obtain step joints where i: "i = (step, joints)" by (cases i)
  show ?case
    unfolding i run_updates_state_Cons
    by (simp add: Cons.IH update_scenario_phase_duration)
qed

section \<open>The invariant of the phase clock\<close>

lemma setup_scenario_inv: "phase_clock_inv (fst (setup_scenario s art obj pos))"
  by (simp add: setup_scenario_def phase_clock_inv_def Let_def)

lemma update_scenario_inv:
  "phase_clock_inv s \<Longrightarrow> phase_clock_inv (fst (update_scenario s step joints))"
  unfolding update_scenario_state phase_clock_inv_def advance_phase_def Let_def
  by auto

lemma run_updates_inv:
  "phase_clock_inv s \<Longrightarrow> phase_clock_inv (fst (run_updates s inputs))"
proof (induction inputs arbitrary: s)
  case Nil
  then show ?case by simp
next
  case (Cons i inputs)
  obtain step joints where i: "i = (step, joints)" by (cases i)
  show ?case
    unfolding i run_updates_state_Cons
    by (rule Cons.IH) (rule update_scenario_inv, rule Cons.prems)
qed


text \<open>
  Under non-negative steps the elapsed phase time never becomes negative, so the
  interpolation factor of a run stays between 0 and 1.
\<close>

lemma update_scenario_phase_time_nonneg:
  "0 \<le> phase_time s \<Longrightarrow> 0 \<le> step \<Longrightarrow> 0 \<le> phase_time (fst (update_scenario s step joints))"
  by (simp add: update_scenario_phase_time)

lemma run_updates_phase_time_nonneg:
  "list_all (\<lambda>(step, joints). 0 \<le> step) inputs \<Longrightarrow> 0 \<le> phase_time s \<Longrightarrow>
     0 \<le> phase_time (fst (run_updates s inputs))"
proof (induction inputs arbitrary: s)
  case Nil
  then show ?case by simp
next
  case (Cons i inputs)
  obtain step joints where i: "i = (step, joints)" by (cases i)
  from Cons.prems i have "0 \<le> step" and rest: "list_all (\<lambda>(step, joints). 0 \<le> step) inputs"
    by simp_all
  with Cons.prems have "0 \<le> phase_time (fst (update_scenario s step joints))"
    by (simp add: update_scenario_phase_time_nonneg)
  with rest show ?case
    unfolding i run_updates_state_Cons by (rule Cons.IH)
qed

section \<open>The example runs, evaluated\<close>

lemma approaching_eq:
  "approaching = \<lparr> object = Some cuboid_prim, articulation = Some kr210, running_scenario = True,
       time = 2, phase = 1, phase_time = 0, phase_duration = 2,
       home_position = Some [0, 0, 0, 0, 0, 0],
       pre_grasp_position = Some [0, -0.5, 0.5, 0, 0.5, 0],
       grasp_position = Some [0, -0.3, 0.3, 0, 0.8, 0],
       lift_position = Some [0, -0.5, 0.5, 0, 0.5, 0],
       place_position = Some [1, -0.3, 0.3, 0, 0.8, 0],
       cube_grasped = False, initial_cube_position = Some [0.6, 0.3, 0.3] \<rparr>"
  by (simp add: approaching_def started_eq run_updates_state_Cons update_scenario_state
      run_updates_state_Nil advance_phase_def Let_def del: run_updates.simps)

lemma grasping_eq:
  "grasping = \<lparr> object = Some cuboid_prim, articulation = Some kr210, running_scenario = True,
       time = 4, phase = 2, phase_time = 0, phase_duration = 2,
       home_position = Some [0, 0, 0, 0, 0, 0],
       pre_grasp_position = Some [0, -0.5, 0.5, 0, 0.5, 0],
       grasp_position = Some [0, -0.3, 0.3, 0, 0.8, 0],
       lift_position = Some [0, -0.5, 0.5, 0, 0.5, 0],
       place_position = Some [1, -0.3, 0.3, 0, 0.8, 0],
       cube_grasped = True, initial_cube_position = Some [0.6, 0.3, 0.3] \<rparr>"
  by (simp add: grasping_def started_eq run_updates_state_Cons update_scenario_state
      run_updates_state_Nil advance_phase_def Let_def del: run_updates.simps)

lemma moving_eq:
  "moving = \<lparr> object = Some cuboid_prim, articulation = Some kr210, running_scenario = True,
       time = 8, phase = 4, phase_time = 0, phase_duration = 2,
       home_position = Some [0, 0, 0, 0, 0, 0],
       pre_grasp_position = Some [0, -0.5, 0.5, 0, 0.5, 0],
       grasp_position = Some [0, -0.3, 0.3, 0, 0.8, 0],
       lift_position = Some [0, -0.5, 0.5, 0, 0.5, 0],
       place_position = Some [1, -0.3, 0.3, 0, 0.8, 0],
       cube_grasped = True, initial_cube_position = Some [0.6, 0.3, 0.3] \<rparr>"
  by (simp add: moving_def started_eq run_updates_state_Cons update_scenario_state
      run_updates_state_Nil advance_phase_def Let_def del: run_updates.simps)

lemma completed_eq:
  "completed = \<lparr> object = Some cuboid_prim, articulation = Some kr210, running_scenario = False,
       time = 14, phase = 7, phase_time = 0, phase_duration = 2,
       home_position = Some [0, 0, 0, 0, 0, 0],
       pre_grasp_position = Some [0, -0.5, 0.5, 0, 0.5, 0],
       grasp_position = Some [0, -0.3, 0.3, 0, 0.8, 0],
       lift_position = Some [0, -0.5, 0.5, 0, 0.5, 0],
       place_position = Some [1, -0.3, 0.3, 0, 0.8, 0],
       cube_grasped = False, initial_cube_position = Some [0.6, 0.3, 0.3] \<rparr>"
  by (simp add: completed_def started_eq run_updates_state_Cons update_scenario_state
      run_updates_state_Nil advance_phase_def Let_def del: run_updates.simps)

lemma tracking_eq:
  "tracking = \<lparr> object = Some cuboid_prim, articulation = Some kr210, running_scenario = True,
       time = 4 + 1 / 60, phase = 2, phase_time = 1 / 60, phase_duration = 2,
       home_position = Some [0, 0, 0, 0, 0, 0],
       pre_grasp_position = Some [0, -0.5, 0.5, 0, 0.5, 0],
       grasp_position = Some [0, -0.3, 0.3, 0, 0.8, 0],
       lift_position = Some [0, -0.5, 0.5, 0, 0.5, 0],
       place_position = Some [1, -0.3, 0.3, 0, 0.8, 0],
       cube_grasped = True, initial_cube_position = Some [0.6, 0.3, 0.3] \<rparr>"
  by (simp add: tracking_def grasping_eq update_scenario_state)

lemma tracking_execute:
  "execute_phase tracking (1 / 60) near_grasp =
     Inr [ApplyAction \<lparr> joint_positions = [0, - 0.3, 0.3, 0, 0.8, 0],
                          joint_velocities = [0, - 2, - 0.06, 0, 0, 0] \<rparr>]"
  by (simp add: tracking_eq near_grasp_def execute_phase_def interpolation_factor_def
      bind_result_def phase_target_def the_array_def np_sub_def np_binop_def
      np_div_scalar_def np_clip_def max_velocity_def)

lemma tracking_effects:
  "fst (snd (update_scenario grasping (1 / 60) near_grasp)) =
     [ApplyAction \<lparr> joint_positions = [0, - 0.3, 0.3, 0, 0.8, 0],
                     joint_velocities = [0, - 2, - 0.06, 0, 0, 0] \<rparr>,
      SetWorldPose [0, 1.5, 0.5]]"
proof -
  have s1: "grasping\<lparr>time := time grasping + 1 / 60, phase_time := phase_time grasping + 1 / 60\<rparr>
      = tracking"
    by (simp add: tracking_def update_scenario_state grasping_eq)
  have pose: "update_cube_position tracking near_grasp = Inr [SetWorldPose [0, 1.5, 0.5]]"
    by (simp add: update_cube_position_def tracking_eq near_grasp_def Let_def)
  have run: "running_scenario grasping" "\<not> phase_duration grasping \<le> phase_time grasping + 1 / 60"
    by (simp_all add: grasping_eq)
  have g: "cube_grasped tracking" by (simp add: tracking_eq)
  show ?thesis
    by (simp add: update_scenario_effects run s1 execute_and_track_def tracking_execute pose g)
qed

lemma slow_step_eq:
  "slow_step = \<lparr> object = Some cuboid_prim, articulation = Some kr210, running_scenario = True,
       time = 4 + 1 / 2000, phase = 2, phase_time = 1 / 2000, phase_duration = 2,
       home_position = Some [0, 0, 0, 0, 0, 0],
       pre_grasp_position = Some [0, -0.5, 0.5, 0, 0.5, 0],
       grasp_position = Some [0, -0.3, 0.3, 0, 0.8, 0],
       lift_position = Some [0, -0.5, 0.5, 0, 0.5, 0],
       place_position = Some [1, -0.3, 0.3, 0, 0.8, 0],
       cube_grasped = True, initial_cube_position = Some [0.6, 0.3, 0.3] \<rparr>"
  by (simp add: slow_step_def grasping_eq update_scenario_state)

lemma slow_step_execute:
  "execute_phase slow_step (1 / 2000) near_grasp =
     Inr [ApplyAction \<lparr> joint_positions = [0, - 0.3, 0.3, 0, 0.8, 0],
                          joint_velocities = [0, - 2, - 1, 0, 0, 0] \<rparr>]"
  by (simp add: slow_step_eq near_grasp_def execute_phase_def interpolation_factor_def
      bind_result_def phase_target_def the_array_def np_sub_def np_binop_def
      np_div_scalar_def np_clip_def max_velocity_def)





lemma grasp_no_error: "snd (snd (update_scenario approaching 2 at_grasp)) = None"
proof -
  let ?s1 = "approaching\<lparr>time := time approaching + 2, phase_time := phase_time approaching + 2\<rparr>"
  have adv: "advance_phase ?s1 = (grasping, [Print ''Phase 2: Grasping cube''], False)"
    by (simp add: approaching_eq grasping_eq advance_phase_def Let_def)
  have ex: "execute_phase grasping 2 at_grasp =
     Inr [ApplyAction \<lparr> joint_positions = [0, - 0.3, 0.3, 0, 0.8, 0],
                          joint_velocities = [0, 0, 0, 0, 0, 0] \<rparr>]"
    by (simp add: grasping_eq at_grasp_def execute_phase_def interpolation_factor_def
      bind_result_def phase_target_def the_array_def np_sub_def np_binop_def
      np_div_scalar_def np_clip_def max_velocity_def)
  obtain out where pose: "update_cube_position grasping at_grasp = Inr out"
    by (simp add: update_cube_position_def grasping_eq at_grasp_def Let_def)
  have run: "running_scenario approaching" "phase_duration approaching \<le> phase_time approaching + 2"
    by (simp_all add: approaching_eq)
  have g: "cube_grasped grasping" by (simp add: grasping_eq)
  show ?thesis
    by (simp add: update_scenario_error run adv execute_and_track_def ex pose g)
qed

section \<open>Velocity commands\<close>

text \<open>What a call of \<^verbatim>\<open>_execute_phase\<close> that does not raise has commanded.\<close>

lemma execute_phase_result:
  assumes "execute_phase s step joints = Inr out"
  shows "\<exists>t target d. interpolation_factor s = Inr t \<and> phase_target s t = Inr target \<and>
           np_sub target joints = Inr d \<and>
           out = [ApplyAction \<lparr> joint_positions = target,
                    joint_velocities = map (\<lambda>x. min 2 (max (x / max step 0.001) (- 2))) d \<rparr>]"
  using assms
  by (auto simp: execute_phase_def bind_result_def Let_def np_clip_def np_div_scalar_def
      max_velocity_def split: sum.splits option.splits)

text \<open>
  C4, as the code has it. Every call of \<^verbatim>\<open>_execute_phase\<close> that commands the arm
  commands the velocity \<open>(target - current) / max(step, 0.001)\<close>, clamped componentwise
  to magnitude 2, where \<open>target\<close> is the target of the phase and \<open>current\<close> the joint
  positions read; this is \<open>(target - current) / step\<close> clamped whenever the step is at
  least 0.001.
\<close>

theorem velocity_command:
  assumes "execute_phase s step joints = Inr out"
  shows "\<exists>t target velocity.
           interpolation_factor s = Inr t \<and> phase_target s t = Inr target \<and>
           clamped_velocity target joints (max step 0.001) = Inr velocity \<and>
           out = [ApplyAction \<lparr> joint_positions = target, joint_velocities = velocity \<rparr>] \<and>
           (length target = length joints \<longrightarrow>
              velocity = map2 (\<lambda>x c. min 2 (max ((x - c) / max step 0.001) (- 2))) target joints) \<and>
           (0.001 \<le> step \<longrightarrow> clamped_velocity target joints step = Inr velocity)"
proof -
  from execute_phase_result [OF assms] obtain t target d where
    t: "interpolation_factor s = Inr t" and tg: "phase_target s t = Inr target" and
    d: "np_sub target joints = Inr d" and
    out: "out = [ApplyAction \<lparr> joint_positions = target,
                    joint_velocities = map (\<lambda>x. min 2 (max (x / max step 0.001) (- 2))) d \<rparr>]"
    by blast
  let ?v = "map (\<lambda>x. min 2 (max (x / max step 0.001) (- 2))) d"
  have cv: "clamped_velocity target joints (max step 0.001) = Inr ?v"
    by (simp add: clamped_velocity_def d bind_result_def)
  have eqlen: "length target = length joints \<longrightarrow>
      ?v = map2 (\<lambda>x c. min 2 (max ((x - c) / max step 0.001) (- 2))) target joints"
  proof
    assume len: "length target = length joints"
    then have "d = map2 (-) target joints"
      using d by (simp add: np_sub_def np_binop_same_length)
    moreover have "map (\<lambda>x. min 2 (max (x / max step 0.001) (- 2))) (map2 (-) target joints) =
       map2 (\<lambda>x c. min 2 (max ((x - c) / max step 0.001) (- 2))) target joints"
      using len by (induction target joints rule: list_induct2) simp_all
    ultimately show "?v = map2 (\<lambda>x c. min 2 (max ((x - c) / max step 0.001) (- 2))) target joints"
      by simp
  qed
  have big: "0.001 \<le> step \<longrightarrow> clamped_velocity target joints step = Inr ?v"
  proof
    assume "0.001 \<le> step"
    then have "max step 0.001 = step" by simp
    with cv show "clamped_velocity target joints step = Inr ?v" by simp
  qed
  from t tg cv out eqlen big show ?thesis by blast
qed

theorem velocity_command_witness:
  "execute_phase tracking (1 / 60) near_grasp =
     Inr [ApplyAction \<lparr> joint_positions = [0, - 0.3, 0.3, 0, 0.8, 0],
                          joint_velocities = [0, - 2, - 0.06, 0, 0, 0] \<rparr>]
   \<and> length [0, - 0.3, 0.3, 0, 0.8, 0 :: real] = length near_grasp
   \<and> (0.001 :: real) \<le> 1 / 60
   \<and> clamped_velocity [0, - 0.3, 0.3, 0, 0.8, 0] near_grasp (1 / 60)
       = Inr [0, - 2, - 0.06, 0, 0, 0]"
proof -
  from velocity_command [OF tracking_execute]
  have "clamped_velocity [0, - 0.3, 0.3, 0, 0.8, 0] near_grasp (1 / 60)
       = Inr [0, - 2, - 0.06, 0, 0, 0]"
    by auto
  moreover have "length [0, - 0.3, 0.3, 0, 0.8, 0 :: real] = length near_grasp"
    by (simp add: near_grasp_def)
  ultimately show ?thesis
    using tracking_execute by simp
qed

text \<open>
  C4 as stated, with the step itself as divisor, fails for a step below 0.001: with a
  step of 0.0005 in phase 2 and the third joint 0.001 above its target, the code commands
  \<open>- 1\<close> for that joint where \<open>(target - current) / step\<close> clamped is \<open>- 2\<close>.
\<close>

theorem velocity_divisor_counterexample:
  "execute_phase slow_step (1 / 2000) near_grasp =
     Inr [ApplyAction \<lparr> joint_positions = [0, - 0.3, 0.3, 0, 0.8, 0],
                          joint_velocities = [0, - 2, - 1, 0, 0, 0] \<rparr>]
   \<and> clamped_velocity [0, - 0.3, 0.3, 0, 0.8, 0] near_grasp (1 / 2000)
       = Inr [0, - 2, - 2, 0, 0, 0]"
  by (simp add: slow_step_execute)
     (simp add: clamped_velocity_def near_grasp_def bind_result_def np_sub_def np_binop_def)

text \<open>
  C5. Every component of a velocity vector that \<^verbatim>\<open>_execute_phase\<close>, and so
  \<^verbatim>\<open>update_scenario\<close>, applies to the articulation lies between \<open>- 2\<close> and \<open>2\<close>,
  for every state, joint reading and step.
\<close>

theorem velocity_within_bounds:
  "(execute_phase s step joints = Inr out \<and> ApplyAction a \<in> set out \<longrightarrow>
      (\<forall>v \<in> set (joint_velocities a). - 2 \<le> v \<and> v \<le> 2))
   \<and> (ApplyAction b \<in> set (fst (snd (update_scenario s step joints))) \<longrightarrow>
      (\<forall>v \<in> set (joint_velocities b). - 2 \<le> v \<and> v \<le> 2))"
proof -
  have ex: "\<forall>v \<in> set (joint_velocities a'). - 2 \<le> v \<and> v \<le> 2"
    if "execute_phase s' step joints = Inr out'" "ApplyAction a' \<in> set out'"
    for s' out' a'
    using execute_phase_result [OF that(1)] that(2) by auto
  show ?thesis
    using ex update_scenario_action [of b s step joints]
    by (metis list.set_intros(1))
qed

theorem velocity_within_bounds_witness:
  "execute_phase tracking (1 / 60) near_grasp =
     Inr [ApplyAction \<lparr> joint_positions = [0, - 0.3, 0.3, 0, 0.8, 0],
                          joint_velocities = [0, - 2, - 0.06, 0, 0, 0] \<rparr>]
   \<and> ApplyAction \<lparr> joint_positions = [0, - 0.3, 0.3, 0, 0.8, 0],
                    joint_velocities = [0, - 2, - 0.06, 0, 0, 0] \<rparr>
       \<in> set (fst (snd (update_scenario grasping (1 / 60) near_grasp)))
   \<and> list_all (\<lambda>v. - 2 \<le> v \<and> v \<le> 2) [0, - 2, - 0.06, 0, 0, 0 :: real]"
  using velocity_within_bounds [of tracking "1 / 60" near_grasp
      "[ApplyAction \<lparr> joint_positions = [0, - 0.3, 0.3, 0, 0.8, 0],
                          joint_velocities = [0, - 2, - 0.06, 0, 0, 0] \<rparr>]"
      "\<lparr> joint_positions = [0, - 0.3, 0.3, 0, 0.8, 0],
                          joint_velocities = [0, - 2, - 0.06, 0, 0, 0] \<rparr>"]
    velocity_within_bounds [of grasping "1 / 60" near_grasp _ _
      "\<lparr> joint_positions = [0, - 0.3, 0.3, 0, 0.8, 0],
                          joint_velocities = [0, - 2, - 0.06, 0, 0, 0] \<rparr>"]
  by (simp add: tracking_execute tracking_effects)

section \<open>Normalised progress\<close>

text \<open>
  With a positive phase duration the interpolation factor is \<open>min(elapsed / duration, 1)\<close>,
  which is \<open>clamp(elapsed / duration, 0, 1)\<close> whenever the elapsed phase time is not
  negative.
\<close>

lemma interpolation_factor_nonneg_elapsed:
  assumes "0 < phase_duration s"
  shows "interpolation_factor s = Inr (min (phase_time s / phase_duration s) 1)
       \<and> (0 \<le> phase_time s \<longrightarrow>
            interpolation_factor s = Inr (spec_progress (phase_time s) (phase_duration s)))"
  using assms by (simp add: interpolation_factor_def spec_progress_def)

text \<open>
  In a run with non-negative steps the factor is therefore the clamped progress and lies
  between 0 and 1, as the comment in \<^verbatim>\<open>_execute_phase\<close> says of it.
\<close>

lemma interpolation_factor_reachable:
  assumes "list_all (\<lambda>(step, joints). 0 \<le> step) inputs"
    and "s = fst (run_updates (fst (setup_scenario init_scenario art obj pos)) inputs)"
  shows "\<exists>t. interpolation_factor s = Inr t \<and> 0 \<le> t \<and> t \<le> 1 \<and>
           t = spec_progress (phase_time s) (phase_duration s)"
proof -
  have d: "phase_duration s = 2"
    unfolding assms(2)
    by (simp add: run_updates_phase_duration setup_scenario_def init_scenario_def Let_def)
  have "0 \<le> phase_time (fst (setup_scenario init_scenario art obj pos))"
    by (simp add: setup_scenario_def Let_def)
  with assms(1) have e: "0 \<le> phase_time s"
    unfolding assms(2) by (rule run_updates_phase_time_nonneg)
  from d e show ?thesis
    by (simp add: interpolation_factor_def spec_progress_def)
qed


section \<open>The phase clock\<close>



text \<open>
  C10. In every state \<open>s\<close> that calls of \<^verbatim>\<open>update_scenario\<close> with non-negative
  steps reach after \<^verbatim>\<open>setup_scenario\<close>, the cube is marked grasped exactly in phases
  2, 3 and 4; the flag is set by the call that enters phase 2 and cleared by the call that
  enters phase 5. A call sets the pose of the cube only when the flag holds after it, and
  the pose it sets is the one that follows the arm: the approximate end-effector position
  \<open>(1.5 sin j0 cos j1, 1.5 cos j0 cos j1, 1.5 sin j1 + 0.5)\<close> at the joint positions
  \<open>j0\<close>, \<open>j1\<close> read in that call. Conversely, every call that ends without an exception
  with the flag set has set that pose.
\<close>

theorem cube_grasped_phases:
  assumes "list_all (\<lambda>(step, joints). 0 \<le> step) inputs"
    and "s = fst (run_updates (fst (setup_scenario s0 art obj pos)) inputs)"
    and "0 \<le> step"
    and "s' = fst (update_scenario s step joints)"
  shows "(cube_grasped s \<longleftrightarrow> phase s \<in> {2, 3, 4})
       \<and> (phase s \<noteq> 2 \<and> phase s' = 2 \<longrightarrow> \<not> cube_grasped s \<and> cube_grasped s')
       \<and> (phase s \<noteq> 5 \<and> phase s' = 5 \<longrightarrow> cube_grasped s \<and> \<not> cube_grasped s')
       \<and> (SetWorldPose p \<in> set (fst (snd (update_scenario s step joints))) \<longrightarrow>
            cube_grasped s' \<and> phase s' \<in> {2, 3, 4} \<and> 2 \<le> length joints \<and>
            p = [1.5 * sin (joints ! 0) * cos (joints ! 1),
                 1.5 * cos (joints ! 0) * cos (joints ! 1),
                 1.5 * sin (joints ! 1) + 0.5])
       \<and> (cube_grasped s' \<and> snd (snd (update_scenario s step joints)) = None \<longrightarrow>
            SetWorldPose [1.5 * sin (joints ! 0) * cos (joints ! 1),
                          1.5 * cos (joints ! 0) * cos (joints ! 1),
                          1.5 * sin (joints ! 1) + 0.5]
              \<in> set (fst (snd (update_scenario s step joints))))"
proof -
  have inv: "phase_clock_inv s"
    unfolding assms(2) by (rule run_updates_inv) (rule setup_scenario_inv)
  then have inv': "phase_clock_inv s'"
    unfolding assms(4) by (rule update_scenario_inv)
  have ph: "phase s' = phase s \<or> phase s' = phase s + 1"
    unfolding assms(4) by (simp add: update_scenario_phase)
  have g: "cube_grasped s \<longleftrightarrow> phase s \<in> {2, 3, 4}"
    using inv by (simp add: phase_clock_inv_def)
  have g': "cube_grasped s' \<longleftrightarrow> phase s' \<in> {2, 3, 4}"
    using inv' by (simp add: phase_clock_inv_def)
  have into2: "phase s \<noteq> 2 \<and> phase s' = 2 \<longrightarrow> \<not> cube_grasped s \<and> cube_grasped s'"
    using ph g g' by auto
  have into5: "phase s \<noteq> 5 \<and> phase s' = 5 \<longrightarrow> cube_grasped s \<and> \<not> cube_grasped s'"
    using ph g g' by auto
  have pose: "SetWorldPose p \<in> set (fst (snd (update_scenario s step joints))) \<longrightarrow>
            cube_grasped s' \<and> phase s' \<in> {2, 3, 4} \<and> 2 \<le> length joints \<and>
            p = [1.5 * sin (joints ! 0) * cos (joints ! 1),
                 1.5 * cos (joints ! 0) * cos (joints ! 1),
                 1.5 * sin (joints ! 1) + 0.5]"
    using update_scenario_pose [of p s step joints] update_scenario_pose_value [of p s step joints]
      g' unfolding assms(4) by blast
  have run': "cube_grasped s' \<longrightarrow> running_scenario s'"
    using inv' by (auto simp: phase_clock_inv_def)
  have tracks: "cube_grasped s' \<and> snd (snd (update_scenario s step joints)) = None \<longrightarrow>
            SetWorldPose [1.5 * sin (joints ! 0) * cos (joints ! 1),
                          1.5 * cos (joints ! 0) * cos (joints ! 1),
                          1.5 * sin (joints ! 1) + 0.5]
              \<in> set (fst (snd (update_scenario s step joints)))"
    using run' update_scenario_tracks [of s step joints] unfolding assms(4) by blast
  from g into2 into5 pose tracks show ?thesis by blast
qed

theorem cube_grasped_phases_witness:
  "list_all (\<lambda>(step, joints). 0 \<le> step) [(2 :: real, at_grasp)]
   \<and> phase approaching = 1 \<and> \<not> cube_grasped approaching
   \<and> phase (fst (update_scenario approaching 2 at_grasp)) = 2
   \<and> cube_grasped (fst (update_scenario approaching 2 at_grasp))
   \<and> snd (snd (update_scenario approaching 2 at_grasp)) = None
   \<and> SetWorldPose [1.5 * sin (at_grasp ! 0) * cos (at_grasp ! 1),
                    1.5 * cos (at_grasp ! 0) * cos (at_grasp ! 1),
                    1.5 * sin (at_grasp ! 1) + 0.5]
        \<in> set (fst (snd (update_scenario approaching 2 at_grasp)))
   \<and> 2 \<le> length at_grasp
   \<and> list_all (\<lambda>(step, joints). 0 \<le> step)
        [(2 :: real, at_grasp), (2, at_grasp), (2, at_grasp), (2, at_grasp)]
   \<and> phase moving = 4 \<and> cube_grasped moving
   \<and> phase (fst (update_scenario moving 2 near_grasp)) = 5
   \<and> \<not> cube_grasped (fst (update_scenario moving 2 near_grasp))"
proof -
  let ?pose = "[1.5 * sin (at_grasp ! 0) * cos (at_grasp ! 1),
                    1.5 * cos (at_grasp ! 0) * cos (at_grasp ! 1),
                    1.5 * sin (at_grasp ! 1) + 0.5]"
  have steps1: "list_all (\<lambda>(step, joints). 0 \<le> step) [(2 :: real, at_grasp)]"
    by simp
  have reached1: "approaching = fst (run_updates
      (fst (setup_scenario init_scenario kr210 cuboid_prim [0.6, 0.3, 0.3])) [(2, at_grasp)])"
    by (simp only: approaching_def started_def)
  have steps4: "list_all (\<lambda>(step, joints). 0 \<le> step)
      [(2 :: real, at_grasp), (2, at_grasp), (2, at_grasp), (2, at_grasp)]"
    by simp
  have reached4: "moving = fst (run_updates
      (fst (setup_scenario init_scenario kr210 cuboid_prim [0.6, 0.3, 0.3]))
      [(2, at_grasp), (2, at_grasp), (2, at_grasp), (2, at_grasp)])"
    by (simp only: moving_def started_def)
  have two: "(0 :: real) \<le> 2" by simp
  have p1: "phase approaching = 1" "phase (fst (update_scenario approaching 2 at_grasp)) = 2"
    by (simp_all add: approaching_eq update_scenario_phase)
  have p4: "phase moving = 4" "phase (fst (update_scenario moving 2 near_grasp)) = 5"
    by (simp_all add: moving_eq update_scenario_phase)
  note c1 = cube_grasped_phases [OF steps1 reached1 two refl, of at_grasp ?pose]
  from c1 p1
  have a: "\<not> cube_grasped approaching \<and> cube_grasped (fst (update_scenario approaching 2 at_grasp))"
    by simp
  with c1 grasp_no_error
  have m: "SetWorldPose ?pose \<in> set (fst (snd (update_scenario approaching 2 at_grasp)))"
    by blast
  with c1 have l: "2 \<le> length at_grasp"
    by blast
  from cube_grasped_phases [OF steps4 reached4 two refl, of near_grasp "[0, 1.5, 0.5]"] p4
  have b: "cube_grasped moving \<and> \<not> cube_grasped (fst (update_scenario moving 2 near_grasp))"
    by simp
  from steps1 steps4 p1 p4 a b m l grasp_no_error show ?thesis by blast
qed

text \<open>
  C9. A call of \<^verbatim>\<open>update_scenario\<close> on a scenario that is not running returns the
  state as it was, does nothing to the host and raises nothing; a fresh scenario and a
  torn-down one are not running.
\<close>

theorem update_scenario_idle:
  "(\<not> running_scenario s \<longrightarrow> update_scenario s step joints = (s, [], None))
   \<and> \<not> running_scenario init_scenario
   \<and> \<not> running_scenario (teardown_scenario s0)"
  by (simp add: update_scenario_def init_scenario_def teardown_scenario_def)

theorem update_scenario_idle_witness:
  "\<not> running_scenario init_scenario
   \<and> update_scenario init_scenario (1 / 60) [] = (init_scenario, [], None)
   \<and> \<not> running_scenario (teardown_scenario grasping)
   \<and> update_scenario (teardown_scenario grasping) (1 / 60) at_grasp
       = (teardown_scenario grasping, [], None)
   \<and> \<not> running_scenario completed
   \<and> update_scenario completed (1 / 60) at_grasp = (completed, [], None)"
  using update_scenario_idle [of init_scenario "1 / 60" "[]" grasping]
    update_scenario_idle [of "teardown_scenario grasping" "1 / 60" at_grasp grasping]
    update_scenario_idle [of completed "1 / 60" at_grasp grasping]
  by (simp add: completed_eq)

section \<open>Resetting from the user interface\<close>

text \<open>
  C8. When the articulation or the cuboid is unset, \<^verbatim>\<open>_reset_scenario\<close> prints its
  warning and leaves the user interface and its scenario as they were; when both are set
  it tears the scenario down and sets it up again, with no other check.
\<close>

theorem reset_scenario_unset:
  "(ui_articulation u = None \<or> cuboid u = None \<longrightarrow>
      reset_scenario u pos =
        (u, [Print ''Warning: Cannot reset scenario - objects not loaded'']))
   \<and> (ui_articulation u = Some art \<and> cuboid u = Some cub \<longrightarrow>
      reset_scenario u pos =
        (u\<lparr> ui_scenario := fst (setup_scenario (teardown_scenario (ui_scenario u)) art cub pos) \<rparr>,
         snd (setup_scenario (teardown_scenario (ui_scenario u)) art cub pos)))"
  by (auto simp: reset_scenario_def split: option.splits prod.splits)

theorem reset_scenario_unset_witness:
  "ui_articulation on_init = None
   \<and> reset_scenario on_init [0.6, 0.3, 0.3] =
       (on_init, [Print ''Warning: Cannot reset scenario - objects not loaded''])
   \<and> ui_articulation loaded = Some kr210 \<and> cuboid loaded = Some cuboid_prim
   \<and> ui_scenario (fst (reset_scenario loaded [0.6, 0.3, 0.3])) = started"
  using reset_scenario_unset [of on_init "[0.6, 0.3, 0.3]" kr210 cuboid_prim]
    reset_scenario_unset [of loaded "[0.6, 0.3, 0.3]" kr210 cuboid_prim]
  by (simp add: on_init_def loaded_def started_eq)
     (simp add: setup_scenario_def teardown_scenario_def init_scenario_def kr210_def Let_def
      numeral_eq_Suc)

end
